theory Spec2Isabelle
  imports Main
begin

section \<open>Data model (types of the chat client)\<close>

text \<open>
  The interfaces \<^verbatim>\<open>Message\<close>, \<^verbatim>\<open>ChatSession\<close> and \<^verbatim>\<open>UserProfile\<close>.
  Two interfaces share the field names \<^verbatim>\<open>id\<close>, \<^verbatim>\<open>name\<close> and \<^verbatim>\<open>avatar\<close>, and
  \<^verbatim>\<open>id\<close> is a constant of HOL, so every field carries the initial of its interface
  (\<open>m_\<close>, \<open>s_\<close>, \<open>p_\<close>). An optional field (\<^verbatim>\<open>image?: string\<close>) is an option.
  \<^verbatim>\<open>timestamp: number\<close> holds \<^verbatim>\<open>Date.now()\<close>, a count of milliseconds: an integer.
\<close>

datatype role = User | Model

record message =
  m_id :: string
  m_role :: role
  m_text :: string
  m_timestamp :: int
  m_image :: "string option"
  m_isStreaming :: "bool option"
  m_user_name :: "string option"
  m_user_avatar :: "string option"
  m_session_id :: "string option"

record chat_session =
  s_id :: string
  s_name :: string
  s_avatar :: string
  s_lastMessage :: "string option"
  s_personality :: string
  s_messages :: "message list"

record user_profile =
  p_name :: string
  p_avatar :: string

section \<open>The two state updaters of the synchronisation effect\<close>

text \<open>
  The realtime callback (App.tsx, lines 66 to 76) hands React the updater
  \<^verbatim>\<open>prev => prev.map(s => { if (s.id === activeSessionId) { if (s.messages.find(m => m.id === newMessage.id)) return s; return { ...s, messages: [...s.messages, newMessage] }; } return s; })\<close>.
  \<open>mergeMessage\<close> is the body of the inner branch for one session, \<open>onInsert\<close> the
  whole updater; \<open>roomId\<close> is the value of \<^verbatim>\<open>activeSessionId\<close> the effect run
  closed over. \<^verbatim>\<open>find\<close> returns a message object or \<^verbatim>\<open>undefined\<close>, and an
  object is always truthy, so the test is \<open>find \<dots> \<noteq> None\<close>.
\<close>

definition mergeMessage :: "message \<Rightarrow> chat_session \<Rightarrow> chat_session" where
  "mergeMessage newMessage s =
     (if find (\<lambda>m. m_id m = m_id newMessage) (s_messages s) \<noteq> None then s
      else s\<lparr>s_messages := s_messages s @ [newMessage]\<rparr>)"

definition onInsert :: "string \<Rightarrow> message \<Rightarrow> chat_session list \<Rightarrow> chat_session list" where
  "onInsert roomId newMessage prev =
     map (\<lambda>s. if s_id s = roomId then mergeMessage newMessage s else s) prev"

text \<open>
  The history fetch (lines 49 to 53) applies its answer with the updater
  \<^verbatim>\<open>prev => prev.map(s => s.id === activeSessionId ? { ...s, messages: data } : s)\<close>,
  again with the \<^verbatim>\<open>activeSessionId\<close> of its effect run as \<open>roomId\<close>.
\<close>

definition applyFetched :: "string \<Rightarrow> message list \<Rightarrow> chat_session list \<Rightarrow> chat_session list" where
  "applyFetched roomId data prev =
     map (\<lambda>s. if s_id s = roomId then s\<lparr>s_messages := data\<rparr> else s) prev"

text \<open>The copies of a message in a message list: the entries that carry its id.\<close>

definition copies :: "string \<Rightarrow> message list \<Rightarrow> message list" where
  "copies i ms = filter (\<lambda>m. m_id m = i) ms"

section \<open>The send path\<close>

text \<open>
  \<^verbatim>\<open>Array.prototype.slice(start)\<close> with one argument: a negative start counts from the
  end and is clamped at 0, a start beyond the length gives the empty array.
\<close>

definition slice :: "int \<Rightarrow> 'a list \<Rightarrow> 'a list" where
  "slice start xs =
     (let len = int (length xs);
          k = (if start < 0 then max (len + start) 0 else min start len)
      in drop (nat k) xs)"

text \<open>
  \<^verbatim>\<open>responseText || '...'\<close>: the right operand when the left one is falsy, which for
  a text is the empty string and for a missing one \<^verbatim>\<open>undefined\<close> or \<^verbatim>\<open>null\<close>
  (\<open>None\<close>).
\<close>

definition orElse :: "string option \<Rightarrow> string \<Rightarrow> string" where
  "orElse responseText d =
     (case responseText of None \<Rightarrow> d | Some t \<Rightarrow> if t = [] then d else t)"

text \<open>
  What the collaborators answer during one send. \<^verbatim>\<open>generateResponse\<close> lives in
  \<^verbatim>\<open>services/geminiService\<close>; the handler awaits it inside \<^verbatim>\<open>try\<close>, so it either
  throws or returns a text. The first insert answers \<^verbatim>\<open>{ error }\<close>; the answer of the
  second insert is discarded by the handler.
\<close>

datatype generation = Throws | Returns "string option"

record send_env =
  e_messageId :: string
  e_now :: int
  e_insertError :: bool
  e_generation :: generation
  e_botId :: string
  e_botNow :: int

text \<open>
  What a handler does to the outside: a row handed to \<^verbatim>\<open>supabase.from('messages').insert\<close>,
  a call of \<^verbatim>\<open>generateResponse(text, context, personality, image)\<close>, a line of
  \<^verbatim>\<open>console.error\<close>, and for the effect the history query, the channel it subscribes
  and the channel it removes.
\<close>

datatype effect =
    Insert message
  | GenerateResponse string "message list" string "string option"
  | ConsoleError string
  | FetchMessages string
  | Subscribe string
  | RemoveChannel string

section \<open>The component state\<close>

text \<open>
  \<open>sessions\<close>, \<open>activeSessionId\<close> and \<open>userProfile\<close> are the \<^verbatim>\<open>useState\<close> cells the
  handlers read (\<^verbatim>\<open>isLiveMode\<close> and \<^verbatim>\<open>userNameInput\<close> belong to the voice overlay and
  the join form). \<open>channels\<close> lists the realtime channels that are subscribed and
  \<open>fetches\<close> the history queries that have not answered yet, each by the room id its
  effect run closed over.
\<close>

record client =
  sessions :: "chat_session list"
  activeSessionId :: string
  userProfile :: "user_profile option"
  channels :: "string list"
  fetches :: "string list"

text \<open>
  \<^verbatim>\<open>INITIAL_SESSIONS\<close> (lines 10 to 25). The letters outside ASCII are written as
  their UTF-8 bytes.
\<close>

definition INITIAL_SESSIONS :: "chat_session list" where
  "INITIAL_SESSIONS =
     [\<lparr>s_id = ''public-room-1'',
       s_name = ''Lounge da Nova'',
       s_avatar = ''https://picsum.photos/seed/nova/200'',
       s_lastMessage = None,
       s_personality =
         ''Voc'' @ [CHR 0xC3, CHR 0xAA] @ '' '' @ [CHR 0xC3, CHR 0xA9]
         @ '' Nova, a anfitri'' @ [CHR 0xC3, CHR 0xA3] @ '' desta sala p''
         @ [CHR 0xC3, CHR 0xBA] @ ''blica. Voc'' @ [CHR 0xC3, CHR 0xAA]
         @ '' incentiva a conversa entre as pessoas. Responda de forma breve e em portugu''
         @ [CHR 0xC3, CHR 0xAA] @ ''s.'',
       s_messages = []\<rparr>,
      \<lparr>s_id = ''creative-space'',
       s_name = ''Espa'' @ [CHR 0xC3, CHR 0xA7] @ ''o Criativo'',
       s_avatar = ''https://picsum.photos/seed/echo/200'',
       s_lastMessage = None,
       s_personality =
         ''Voc'' @ [CHR 0xC3, CHR 0xAA] @ '' '' @ [CHR 0xC3, CHR 0xA9]
         @ '' Eco, uma IA que inspira criatividade. Responda em portugu''
         @ [CHR 0xC3, CHR 0xAA] @ ''s.'',
       s_messages = []\<rparr>]"

text \<open>
  \<^verbatim>\<open>sessions.find(s => s.id === activeSessionId) || sessions[0]\<close> (line 37). With no
  session at all the value is \<^verbatim>\<open>undefined\<close>, here \<open>None\<close>.
\<close>

definition activeSession :: "client \<Rightarrow> chat_session option" where
  "activeSession c =
     (case find (\<lambda>s. s_id s = activeSessionId c) (sessions c) of
        Some s \<Rightarrow> Some s
      | None \<Rightarrow> (case sessions c of [] \<Rightarrow> None | s0 # _ \<Rightarrow> Some s0))"

text \<open>The two object literals of \<^verbatim>\<open>handleSendMessage\<close> (lines 88 to 97 and 117 to 123).\<close>

definition newUserMessage ::
  "client \<Rightarrow> user_profile \<Rightarrow> string \<Rightarrow> string option \<Rightarrow> send_env \<Rightarrow> message" where
  "newUserMessage c profile text img env =
     \<lparr>m_id = e_messageId env, m_role = User, m_text = text, m_timestamp = e_now env,
      m_image = img, m_isStreaming = None, m_user_name = Some (p_name profile),
      m_user_avatar = Some (p_avatar profile), m_session_id = Some (activeSessionId c)\<rparr>"

definition botMessage :: "client \<Rightarrow> string option \<Rightarrow> send_env \<Rightarrow> message" where
  "botMessage c responseText env =
     \<lparr>m_id = e_botId env, m_role = Model, m_text = orElse responseText ''...'',
      m_timestamp = e_botNow env, m_image = None, m_isStreaming = None,
      m_user_name = None, m_user_avatar = None, m_session_id = Some (activeSessionId c)\<rparr>"

text \<open>
  \<^verbatim>\<open>handleSendMessage(text, image)\<close> (lines 84 to 129). It never calls
  \<^verbatim>\<open>setSessions\<close>, and after each \<^verbatim>\<open>await\<close> it reads only what its closure captured
  at render (\<^verbatim>\<open>userProfile\<close>, \<^verbatim>\<open>activeSessionId\<close>, \<^verbatim>\<open>activeSession\<close>), so its
  result is the list of what it does to the outside, in order. With
  \<^verbatim>\<open>activeSession\<close> undefined the argument \<^verbatim>\<open>activeSession.messages\<close> throws inside
  \<^verbatim>\<open>try\<close> before the call is made, and \<^verbatim>\<open>catch\<close> logs it.
\<close>

definition handleSendMessage ::
  "client \<Rightarrow> string \<Rightarrow> string option \<Rightarrow> send_env \<Rightarrow> effect list" where
  "handleSendMessage c text img env =
     (case userProfile c of
        None \<Rightarrow> []
      | Some profile \<Rightarrow>
          if e_insertError env then
            [Insert (newUserMessage c profile text img env),
             ConsoleError ''Erro ao enviar para Supabase:'']
          else
            Insert (newUserMessage c profile text img env) #
            (case activeSession c of
               None \<Rightarrow> [ConsoleError ''Erro Gemini:'']
             | Some a \<Rightarrow>
                 GenerateResponse text (slice (- 5) (s_messages a)) (s_personality a) img #
                 (case e_generation env of
                    Throws \<Rightarrow> [ConsoleError ''Erro Gemini:'']
                  | Returns responseText \<Rightarrow> [Insert (botMessage c responseText env)])))"

section \<open>The synchronisation effect and the events of a client\<close>

text \<open>
  The answer of the history query, \<^verbatim>\<open>{ data, error }\<close>; the handler applies it when
  \<^verbatim>\<open>!error && data\<close>, and an array, also the empty one, is truthy.
\<close>

record fetch_result =
  f_error :: bool
  f_data :: "message list option"

definition fetchMessages :: "string \<Rightarrow> fetch_result \<Rightarrow> chat_session list \<Rightarrow> chat_session list" where
  "fetchMessages roomId res prev =
     (if \<not> f_error res then
        (case f_data res of
           Some data \<Rightarrow> applyFetched roomId data prev
         | None \<Rightarrow> prev)
      else prev)"

text \<open>
  \<^verbatim>\<open>useEffect(..., [activeSessionId])\<close> (lines 40 to 82): a run of the effect issues
  the history query and subscribes one channel for the room id it closed over; its
  cleanup removes that channel.
\<close>

definition effectRun :: "string \<Rightarrow> client \<Rightarrow> client" where
  "effectRun rid c = c\<lparr>channels := channels c @ [rid], fetches := fetches c @ [rid]\<rparr>"

definition effectCleanup :: "string \<Rightarrow> client \<Rightarrow> client" where
  "effectCleanup rid c = c\<lparr>channels := remove1 rid (channels c)\<rparr>"

text \<open>
  The component after its first render and effect run; \<open>saved\<close> is the profile read
  from \<^verbatim>\<open>localStorage\<close>.
\<close>

definition mount :: "user_profile option \<Rightarrow> client" where
  "mount saved =
     effectRun (s_id (INITIAL_SESSIONS ! 0))
       \<lparr>sessions = INITIAL_SESSIONS, activeSessionId = s_id (INITIAL_SESSIONS ! 0),
        userProfile = saved, channels = [], fetches = []\<rparr>"

text \<open>
  What can happen to a mounted client:
  \<^item> \<open>Select rid\<close>: the sidebar calls \<^verbatim>\<open>setActiveSessionId(rid)\<close>. React keeps the
    state and runs no effect when the value is the one it has; otherwise it renders,
    runs the cleanup of the previous effect run and then the effect for \<open>rid\<close>.
  \<^item> \<open>FetchDone rid res\<close>: the query issued by the effect run for \<open>rid\<close> answers.
  \<^item> \<open>Deliver rid m\<close>: the channel subscribed for \<open>rid\<close> delivers an inserted row.
  \<^item> \<open>Send text image env\<close>: the chat window calls \<^verbatim>\<open>onSendMessage(text, image)\<close>.
  An answer without its query and a delivery on a removed channel do not occur: the
  state is kept.
\<close>

datatype event =
    Select string
  | FetchDone string fetch_result
  | Deliver string message
  | Send string "string option" send_env

fun step :: "client \<Rightarrow> event \<Rightarrow> client \<times> effect list" where
  "step c (Select rid) =
     (if rid = activeSessionId c then (c, [])
      else (effectRun rid (effectCleanup (activeSessionId c) (c\<lparr>activeSessionId := rid\<rparr>)),
            [RemoveChannel (activeSessionId c), FetchMessages rid, Subscribe rid]))"
| "step c (FetchDone rid res) =
     (if rid \<in> set (fetches c)
      then (c\<lparr>sessions := fetchMessages rid res (sessions c),
              fetches := remove1 rid (fetches c)\<rparr>, [])
      else (c, []))"
| "step c (Deliver rid m) =
     (if rid \<in> set (channels c)
      then (c\<lparr>sessions := onInsert rid m (sessions c)\<rparr>, [])
      else (c, []))"
| "step c (Send text img env) = (c, handleSendMessage c text img env)"

fun run :: "client \<Rightarrow> event list \<Rightarrow> client \<times> effect list" where
  "run c [] = (c, [])"
| "run c (e # es) =
     (case step c e of (c', out) \<Rightarrow> (case run c' es of (c'', out') \<Rightarrow> (c'', out @ out')))"

text \<open>The message list of room \<open>rid\<close> as \<^verbatim>\<open>sessions.find\<close> reads it.\<close>

definition messagesOf :: "string \<Rightarrow> chat_session list \<Rightarrow> message list option" where
  "messagesOf rid ss = map_option s_messages (find (\<lambda>s. s_id s = rid) ss)"

fun isGenerate :: "effect \<Rightarrow> bool" where
  "isGenerate (GenerateResponse t ctx p i) = True"
| "isGenerate _ = False"

fun isSend :: "event \<Rightarrow> bool" where
  "isSend (Send t i env) = True"
| "isSend _ = False"

text \<open>The rows with role \<^verbatim>\<open>'model'\<close> that a list of effects hands to the remote log.\<close>

fun agentInserts :: "effect list \<Rightarrow> message list" where
  "agentInserts [] = []"
| "agentInserts (Insert m # out) =
     (if m_role m = Model then m # agentInserts out else agentInserts out)"
| "agentInserts (_ # out) = agentInserts out"

section \<open>Sample data\<close>

text \<open>
  Concrete values on which the theorems below are instantiated: a user message with
  id \<open>i\<close> and timestamp \<open>t\<close>, a room holding \<open>ms\<close>, the answers of the
  collaborators during a send, and a joined client whose active room holds \<open>ms\<close>.
\<close>

definition sampleMessage :: "string \<Rightarrow> int \<Rightarrow> message" where
  "sampleMessage i t =
     \<lparr>m_id = i, m_role = User, m_text = ''hi'', m_timestamp = t, m_image = None,
      m_isStreaming = None, m_user_name = Some ''ana'', m_user_avatar = None,
      m_session_id = Some ''public-room-1''\<rparr>"

definition sampleRoom :: "string \<Rightarrow> message list \<Rightarrow> chat_session" where
  "sampleRoom rid ms =
     \<lparr>s_id = rid, s_name = ''Room'', s_avatar = ''a.png'', s_lastMessage = None,
      s_personality = ''Be brief.'', s_messages = ms\<rparr>"

definition sevenMessages :: "message list" where
  "sevenMessages =
     [sampleMessage ''1'' 1, sampleMessage ''2'' 2, sampleMessage ''3'' 3, sampleMessage ''4'' 4,
      sampleMessage ''5'' 5, sampleMessage ''6'' 6, sampleMessage ''7'' 7]"

definition sampleEnv :: "bool \<Rightarrow> generation \<Rightarrow> send_env" where
  "sampleEnv err g =
     \<lparr>e_messageId = ''m1'', e_now = 10, e_insertError = err, e_generation = g,
      e_botId = ''b1'', e_botNow = 11\<rparr>"

definition sampleProfile :: user_profile where
  "sampleProfile = \<lparr>p_name = ''ana'', p_avatar = ''ana.png''\<rparr>"

definition sampleClient :: "message list \<Rightarrow> client" where
  "sampleClient ms =
     \<lparr>sessions = [sampleRoom ''public-room-1'' ms, sampleRoom ''creative-space'' []],
      activeSessionId = ''public-room-1'',
      userProfile = Some \<lparr>p_name = ''ana'', p_avatar = ''ana.png''\<rparr>,
      channels = [''public-room-1''], fetches = []\<rparr>"

section \<open>Helper facts\<close>

lemmas sample_defs = sampleMessage_def sampleRoom_def sampleEnv_def sampleClient_def

lemmas client_defs = mount_def INITIAL_SESSIONS_def effectRun_def effectCleanup_def
  onInsert_def mergeMessage_def fetchMessages_def applyFetched_def messagesOf_def

subsection \<open>The updaters\<close>

lemma find_id_None_iff:
  "find (\<lambda>m. m_id m = i) ms = None \<longleftrightarrow> i \<notin> m_id ` set ms"
  by (auto simp: find_None_iff)

lemma mergeMessage_id [simp]: "s_id (mergeMessage m s) = s_id s"
  by (simp add: mergeMessage_def)

lemma mergeMessage_fresh:
  "m_id m \<notin> m_id ` set (s_messages s) \<Longrightarrow>
     mergeMessage m s = s\<lparr>s_messages := s_messages s @ [m]\<rparr>"
  by (simp add: mergeMessage_def find_id_None_iff)

lemma mergeMessage_known:
  "m_id m \<in> m_id ` set (s_messages s) \<Longrightarrow> mergeMessage m s = s"
  by (simp add: mergeMessage_def find_id_None_iff)

lemma mergeMessage_has_id:
  "m_id m \<in> m_id ` set (s_messages (mergeMessage m s))"
  by (cases "m_id m \<in> m_id ` set (s_messages s)")
     (simp_all add: mergeMessage_fresh mergeMessage_known)

lemma mergeMessage_twice: "mergeMessage m (mergeMessage m s) = mergeMessage m s"
  by (rule mergeMessage_known) (rule mergeMessage_has_id)

lemma onInsert_twice: "onInsert r m (onInsert r m prev) = onInsert r m prev"
  by (simp add: onInsert_def mergeMessage_twice)

lemma copies_fresh:
  "m_id m \<notin> m_id ` set ms \<Longrightarrow> copies (m_id m) (ms @ [m]) = [m]"
proof -
  assume "m_id m \<notin> m_id ` set ms"
  then have "filter (\<lambda>x. m_id x = m_id m) ms = []"
    by (force simp: filter_empty_conv image_iff)
  then show ?thesis
    by (simp add: copies_def)
qed

lemma copies_unique:
  "distinct (map m_id ms) \<Longrightarrow> i \<in> m_id ` set ms \<Longrightarrow>
     \<exists>m0 \<in> set ms. copies i ms = [m0]"
proof (induction ms)
  case Nil
  then show ?case by simp
next
  case (Cons x xs)
  show ?case
  proof (cases "m_id x = i")
    case True
    with Cons.prems(1) have "filter (\<lambda>m. m_id m = i) xs = []"
      by (force simp: filter_empty_conv image_iff)
    with True show ?thesis
      by (simp add: copies_def)
  next
    case False
    with Cons.prems have "distinct (map m_id xs)" and "i \<in> m_id ` set xs"
      by auto
    then have "\<exists>m0 \<in> set xs. copies i xs = [m0]"
      by (rule Cons.IH)
    with False show ?thesis
      by (auto simp: copies_def)
  qed
qed

lemma distinct_mergeMessage:
  "distinct (map m_id (s_messages s)) \<Longrightarrow> distinct (map m_id (s_messages (mergeMessage m s)))"
  by (cases "m_id m \<in> m_id ` set (s_messages s)")
     (simp_all add: mergeMessage_fresh mergeMessage_known)

lemma onInsert_known_all:
  "(\<And>s. s \<in> set prev \<Longrightarrow> s_id s = r \<Longrightarrow> m_id m \<in> m_id ` set (s_messages s)) \<Longrightarrow>
     onInsert r m prev = prev"
  by (induction prev) (simp_all add: onInsert_def mergeMessage_known)

lemma find_map_update:
  "(\<And>s. s_id (f s) = s_id s) \<Longrightarrow>
   find (\<lambda>s. s_id s = r) (map (\<lambda>s. if s_id s = r then f s else s) prev)
   = map_option f (find (\<lambda>s. s_id s = r) prev)"
  by (induction prev) auto

lemma find_onInsert:
  "find (\<lambda>s. s_id s = r) (onInsert r m prev)
   = map_option (mergeMessage m) (find (\<lambda>s. s_id s = r) prev)"
  by (simp add: onInsert_def find_map_update)

lemma messagesOf_onInsert:
  "messagesOf r (onInsert r m prev)
   = map_option (\<lambda>s. s_messages (mergeMessage m s)) (find (\<lambda>s. s_id s = r) prev)"
  by (simp add: messagesOf_def onInsert_def find_map_update option.map_comp comp_def)

lemma messagesOf_applyFetched:
  "messagesOf r (applyFetched r data prev)
   = map_option (\<lambda>s. data) (find (\<lambda>s. s_id s = r) prev)"
  by (simp add: messagesOf_def applyFetched_def find_map_update option.map_comp comp_def)

lemma sorted_mergeMessage:
  "sorted (map m_timestamp (s_messages (mergeMessage m s)))
   \<longleftrightarrow> sorted (map m_timestamp (s_messages s))
       \<and> (m_id m \<in> m_id ` set (s_messages s)
          \<or> (\<forall>x \<in> set (s_messages s). m_timestamp x \<le> m_timestamp m))"
  by (cases "m_id m \<in> m_id ` set (s_messages s)")
     (auto simp: mergeMessage_fresh mergeMessage_known sorted_append)

subsection \<open>Runs of events\<close>

lemma generate_handleSendMessage_le:
  "length (filter isGenerate (handleSendMessage c text img env)) \<le> Suc 0"
  by (simp add: handleSendMessage_def split: option.splits generation.splits)

lemma generate_step_le:
  "length (filter isGenerate (snd (step c e))) \<le> (if isSend e then 1 else 0)"
  by (cases e) (simp_all add: generate_handleSendMessage_le)

lemma snd_run_Cons:
  "snd (run c (e # es)) = snd (step c e) @ snd (run (fst (step c e)) es)"
  by (simp split: prod.splits)

lemma fst_run_Cons:
  "fst (run c (e # es)) = fst (run (fst (step c e)) es)"
  by (simp split: prod.splits)

lemma generate_run_le:
  "length (filter isGenerate (snd (run c evs))) \<le> length (filter isSend evs)"
proof (induction evs arbitrary: c)
  case Nil
  show ?case by simp
next
  case (Cons e es)
  have "length (filter isGenerate (snd (run c (e # es))))
        = length (filter isGenerate (snd (step c e)))
          + length (filter isGenerate (snd (run (fst (step c e)) es)))"
    by (simp only: snd_run_Cons filter_append length_append)
  also have "\<dots> \<le> (if isSend e then 1 else 0) + length (filter isSend es)"
    by (rule add_mono [OF generate_step_le Cons.IH])
  also have "\<dots> = length (filter isSend (e # es))"
    by simp
  finally show ?case .
qed

lemma channels_step:
  "channels c = [activeSessionId c] \<Longrightarrow>
   channels (fst (step c e)) = [activeSessionId (fst (step c e))]"
  by (cases e) (simp_all add: effectRun_def effectCleanup_def)

lemma channels_run:
  "channels c = [activeSessionId c] \<Longrightarrow>
   channels (fst (run c evs)) = [activeSessionId (fst (run c evs))]"
proof (induction evs arbitrary: c)
  case Nil
  then show ?case by simp
next
  case (Cons e es)
  from Cons.prems have "channels (fst (step c e)) = [activeSessionId (fst (step c e))]"
    by (rule channels_step)
  then have "channels (fst (run (fst (step c e)) es))
             = [activeSessionId (fst (run (fst (step c e)) es))]"
    by (rule Cons.IH)
  then show ?case
    by (simp only: fst_run_Cons)
qed

lemma channels_mount: "channels (mount saved) = [activeSessionId (mount saved)]"
  by (simp add: mount_def effectRun_def)

subsection \<open>The context window\<close>

lemma slice_last5: "slice (- 5) xs = drop (length xs - 5) xs"
proof -
  have "nat (max (int (length xs) + - 5) 0) = length xs - 5"
    by simp
  then show ?thesis
    by (simp add: slice_def Let_def)
qed

lemma sorted_slice_last5:
  "sorted (map m_timestamp xs) \<Longrightarrow> sorted (map m_timestamp (slice (- 5) xs))"
  by (simp add: slice_last5 sorted_wrt_drop flip: drop_map)

lemma activeSession_found:
  "find (\<lambda>s. s_id s = activeSessionId c) (sessions c) = Some a \<Longrightarrow> activeSession c = Some a"
  by (simp add: activeSession_def)

section \<open>Merging live deliveries (C1)\<close>

text \<open>
  C1. Let the channel of room \<open>r\<close> be subscribed and \<open>s\<close> be the session of \<open>r\<close>. Delivering
  a message \<open>M\<close> twice leaves the client as delivering it once does. When no stored
  message of \<open>r\<close> has the id of \<open>M\<close> (the outcome \<^verbatim>\<open>Inserted\<close>, line 72 of the handler,
  which itself returns nothing), the first delivery appends \<open>M\<close> to the list of \<open>r\<close>,
  and after the second delivery the list is still the old one followed by \<open>M\<close> and
  holds exactly one copy, \<open>M\<close> itself. When a stored message has that id (the outcome
  \<^verbatim>\<open>DuplicateIgnored\<close>, line 71), the session of \<open>r\<close> is returned as it was, after one
  delivery and after two; the whole client is unchanged when this holds of every
  session with the id \<open>r\<close>; and when the stored ids are pairwise different, as deliveries
  keep them, the list holds exactly one copy, the stored one.
\<close>

theorem C1_merge_idempotent:
  assumes "r \<in> set (channels c)" and "find (\<lambda>s. s_id s = r) (sessions c) = Some s"
  shows "fst (step (fst (step c (Deliver r M))) (Deliver r M)) = fst (step c (Deliver r M))
       \<and> (m_id M \<notin> m_id ` set (s_messages s) \<longrightarrow>
            messagesOf r (sessions (fst (step c (Deliver r M)))) = Some (s_messages s @ [M])
            \<and> messagesOf r (sessions (fst (step (fst (step c (Deliver r M))) (Deliver r M))))
                = Some (s_messages s @ [M])
            \<and> copies (m_id M) (s_messages s @ [M]) = [M])
       \<and> (m_id M \<in> m_id ` set (s_messages s) \<longrightarrow>
            find (\<lambda>s. s_id s = r) (sessions (fst (step c (Deliver r M)))) = Some s
            \<and> find (\<lambda>s. s_id s = r)
                 (sessions (fst (step (fst (step c (Deliver r M))) (Deliver r M)))) = Some s
            \<and> (distinct (map m_id (s_messages s)) \<longrightarrow>
                 (\<exists>m0 \<in> set (s_messages s). copies (m_id M) (s_messages s) = [m0])))
       \<and> ((\<forall>s' \<in> set (sessions c). s_id s' = r \<longrightarrow> m_id M \<in> m_id ` set (s_messages s')) \<longrightarrow>
            fst (step c (Deliver r M)) = c)
       \<and> (distinct (map m_id (s_messages s)) \<longrightarrow>
            (\<exists>s'. find (\<lambda>s. s_id s = r) (sessions (fst (step c (Deliver r M)))) = Some s'
                  \<and> distinct (map m_id (s_messages s'))))"
proof -
  let ?c1 = "fst (step c (Deliver r M))"
  let ?c2 = "fst (step ?c1 (Deliver r M))"
  have twice: "?c2 = ?c1"
    by (simp add: onInsert_twice)
  from assms(1) have one: "sessions ?c1 = onInsert r M (sessions c)"
    by simp
  with assms(2) have found: "find (\<lambda>s. s_id s = r) (sessions ?c1) = Some (mergeMessage M s)"
    by (simp add: find_onInsert)
  have fresh: "messagesOf r (sessions ?c1) = Some (s_messages s @ [M])
      \<and> messagesOf r (sessions ?c2) = Some (s_messages s @ [M])
      \<and> copies (m_id M) (s_messages s @ [M]) = [M]"
    if "m_id M \<notin> m_id ` set (s_messages s)"
  proof -
    from that found have "messagesOf r (sessions ?c1) = Some (s_messages s @ [M])"
      by (simp add: messagesOf_def mergeMessage_fresh)
    with that show ?thesis
      by (simp only: twice copies_fresh simp_thms)
  qed
  have known: "find (\<lambda>s. s_id s = r) (sessions ?c1) = Some s
      \<and> find (\<lambda>s. s_id s = r) (sessions ?c2) = Some s
      \<and> (distinct (map m_id (s_messages s)) \<longrightarrow>
           (\<exists>m0 \<in> set (s_messages s). copies (m_id M) (s_messages s) = [m0]))"
    if "m_id M \<in> m_id ` set (s_messages s)"
  proof -
    from that found have "find (\<lambda>s. s_id s = r) (sessions ?c1) = Some s"
      by (simp add: mergeMessage_known)
    moreover have "distinct (map m_id (s_messages s)) \<longrightarrow>
           (\<exists>m0 \<in> set (s_messages s). copies (m_id M) (s_messages s) = [m0])"
      using that by (blast intro: copies_unique)
    ultimately show ?thesis
      by (simp only: twice simp_thms)
  qed
  have same: "?c1 = c"
    if "\<forall>s' \<in> set (sessions c). s_id s' = r \<longrightarrow> m_id M \<in> m_id ` set (s_messages s')"
  proof -
    from that have "onInsert r M (sessions c) = sessions c"
      by (intro onInsert_known_all) blast
    then show ?thesis
      by simp
  qed
  have keeps: "\<exists>s'. find (\<lambda>s. s_id s = r) (sessions ?c1) = Some s'
                  \<and> distinct (map m_id (s_messages s'))"
    if "distinct (map m_id (s_messages s))"
    using that found by (blast intro: distinct_mergeMessage)
  from twice fresh known same keeps show ?thesis
    by blast
qed

text \<open>
  C1 on a joined client whose active room holds \<open>a\<close>: a message with the new id \<open>c\<close> is
  stored once by two deliveries, and two deliveries of a message that reuses the id
  \<open>a\<close> leave the client as it was, with the one stored copy.
\<close>

theorem C1_merge_idempotent_witness:
  "messagesOf ''public-room-1''
     (sessions (fst (step (fst (step (sampleClient [sampleMessage ''a'' 1])
        (Deliver ''public-room-1'' (sampleMessage ''c'' 3))))
        (Deliver ''public-room-1'' (sampleMessage ''c'' 3)))))
   = Some [sampleMessage ''a'' 1, sampleMessage ''c'' 3]
   \<and> copies ''c'' [sampleMessage ''a'' 1, sampleMessage ''c'' 3] = [sampleMessage ''c'' 3]
   \<and> fst (step (fst (step (sampleClient [sampleMessage ''a'' 1])
        (Deliver ''public-room-1'' (sampleMessage ''a'' 9))))
        (Deliver ''public-room-1'' (sampleMessage ''a'' 9)))
     = sampleClient [sampleMessage ''a'' 1]
   \<and> copies ''a'' [sampleMessage ''a'' 1] = [sampleMessage ''a'' 1]"
proof -
  let ?c = "sampleClient [sampleMessage ''a'' 1]"
  let ?s = "sampleRoom ''public-room-1'' [sampleMessage ''a'' 1]"
  let ?new = "sampleMessage ''c'' 3"
  let ?dup = "sampleMessage ''a'' 9"
  have ch: "''public-room-1'' \<in> set (channels ?c)"
    by (simp add: sampleClient_def)
  have room: "find (\<lambda>s. s_id s = ''public-room-1'') (sessions ?c) = Some ?s"
    by (simp add: sampleClient_def sampleRoom_def)
  have ms: "s_messages ?s = [sampleMessage ''a'' 1]"
    by (simp add: sampleRoom_def)
  have fresh: "m_id ?new \<notin> m_id ` set (s_messages ?s)"
    by (simp add: ms) (simp add: sampleMessage_def)
  have known: "\<forall>s' \<in> set (sessions ?c). s_id s' = ''public-room-1''
      \<longrightarrow> m_id ?dup \<in> m_id ` set (s_messages s')"
    by (simp add: sampleClient_def sampleRoom_def sampleMessage_def)
  have idc: "m_id ?new = ''c''" and ida: "m_id ?dup = ''a''"
    by (simp_all add: sampleMessage_def)
  note new = C1_merge_idempotent [OF ch room, of ?new]
  note dup = C1_merge_idempotent [OF ch room, of ?dup]
  from new fresh
  have "messagesOf ''public-room-1''
          (sessions (fst (step (fst (step ?c (Deliver ''public-room-1'' ?new)))
             (Deliver ''public-room-1'' ?new)))) = Some (s_messages ?s @ [?new])
        \<and> copies (m_id ?new) (s_messages ?s @ [?new]) = [?new]"
    by blast
  then have a: "messagesOf ''public-room-1''
          (sessions (fst (step (fst (step ?c (Deliver ''public-room-1'' ?new)))
             (Deliver ''public-room-1'' ?new)))) = Some [sampleMessage ''a'' 1, ?new]
        \<and> copies ''c'' [sampleMessage ''a'' 1, ?new] = [?new]"
    by (simp only: ms idc append_Cons append_Nil)
  from dup known
  have "fst (step (fst (step ?c (Deliver ''public-room-1'' ?dup))) (Deliver ''public-room-1'' ?dup))
        = fst (step ?c (Deliver ''public-room-1'' ?dup))
        \<and> fst (step ?c (Deliver ''public-room-1'' ?dup)) = ?c"
    by blast
  then have b: "fst (step (fst (step ?c (Deliver ''public-room-1'' ?dup)))
        (Deliver ''public-room-1'' ?dup)) = ?c"
    by (elim conjE) (rule trans)
  have c: "copies ''a'' [sampleMessage ''a'' 1] = [sampleMessage ''a'' 1]"
    by (simp add: copies_def sampleMessage_def)
  from a b c show ?thesis
    by blast
qed

section \<open>History against live deliveries (C2)\<close>

text \<open>
  C2 as the specification states it does not hold. On the mounted client the channel of
  \<^verbatim>\<open>public-room-1\<close> delivers \<open>c\<close> while the history query is still out; the answer
  \<open>[a, b]\<close> then replaces the list, and \<open>c\<close>, whose id is neither of theirs, is gone.
\<close>

theorem C2_history_overwrites_counterexample:
  "messagesOf ''public-room-1'' (sessions (fst (run (mount None)
     [Deliver ''public-room-1'' (sampleMessage ''c'' 3),
      FetchDone ''public-room-1''
        \<lparr>f_error = False, f_data = Some [sampleMessage ''a'' 1, sampleMessage ''b'' 2]\<rparr>])))
   = Some [sampleMessage ''a'' 1, sampleMessage ''b'' 2]
   \<and> sampleMessage ''c'' 3 \<notin> set [sampleMessage ''a'' 1, sampleMessage ''b'' 2]
   \<and> m_id (sampleMessage ''c'' 3) \<notin> {m_id (sampleMessage ''a'' 1), m_id (sampleMessage ''b'' 2)}"
  by (simp add: client_defs sampleMessage_def)

text \<open>
  C2, as the code has it. With the id of \<open>C\<close> different from those of \<open>A\<close> and \<open>B\<close>
  and room \<open>r\<close> in the catalogue: when the history \<open>[A, B]\<close> is applied first and \<open>C\<close>
  is delivered after it, the list of \<open>r\<close> is \<open>[A, B, C]\<close>; when \<open>C\<close> is delivered first
  and the history is applied after it, the history replaces the list and the list of \<open>r\<close>
  is \<open>[A, B]\<close>.
\<close>

theorem C2_history_then_live:
  assumes "m_id C \<notin> {m_id A, m_id B}" and "find (\<lambda>s. s_id s = r) prev = Some s"
  shows "messagesOf r (onInsert r C (applyFetched r [A, B] prev)) = Some [A, B, C]
         \<and> messagesOf r (applyFetched r [A, B] (onInsert r C prev)) = Some [A, B]"
proof
  from assms(2) have "messagesOf r (applyFetched r [A, B] prev) = Some [A, B]"
    by (simp add: messagesOf_applyFetched)
  then obtain s' where s': "find (\<lambda>s. s_id s = r) (applyFetched r [A, B] prev) = Some s'"
    and ms: "s_messages s' = [A, B]"
    by (auto simp: messagesOf_def)
  from assms(1) ms have "s_messages (mergeMessage C s') = [A, B, C]"
    by (simp add: mergeMessage_fresh)
  with s' show "messagesOf r (onInsert r C (applyFetched r [A, B] prev)) = Some [A, B, C]"
    by (simp add: messagesOf_onInsert)
next
  from assms(2) have "find (\<lambda>s. s_id s = r) (onInsert r C prev) = Some (mergeMessage C s)"
    by (simp add: onInsert_def find_map_update)
  then show "messagesOf r (applyFetched r [A, B] (onInsert r C prev)) = Some [A, B]"
    by (simp add: messagesOf_applyFetched)
qed

text \<open>
  C2 on the initial catalogue, for both orders.
\<close>

theorem C2_history_then_live_witness:
  "messagesOf ''public-room-1''
     (onInsert ''public-room-1'' (sampleMessage ''c'' 3)
        (applyFetched ''public-room-1'' [sampleMessage ''a'' 1, sampleMessage ''b'' 2]
           INITIAL_SESSIONS))
   = Some [sampleMessage ''a'' 1, sampleMessage ''b'' 2, sampleMessage ''c'' 3]
   \<and> messagesOf ''public-room-1''
     (applyFetched ''public-room-1'' [sampleMessage ''a'' 1, sampleMessage ''b'' 2]
        (onInsert ''public-room-1'' (sampleMessage ''c'' 3) INITIAL_SESSIONS))
   = Some [sampleMessage ''a'' 1, sampleMessage ''b'' 2]"
proof -
  have ids: "m_id (sampleMessage ''c'' 3) \<notin> {m_id (sampleMessage ''a'' 1), m_id (sampleMessage ''b'' 2)}"
    by (simp add: sampleMessage_def)
  have room: "find (\<lambda>s. s_id s = ''public-room-1'') INITIAL_SESSIONS = Some (INITIAL_SESSIONS ! 0)"
    by (simp add: INITIAL_SESSIONS_def)
  show ?thesis
    by (rule C2_history_then_live [OF ids room])
qed

section \<open>Replies and generation results (C3)\<close>

text \<open>
  C3 as the specification states it does not hold for an empty result: the handler
  writes \<^verbatim>\<open>responseText || '...'\<close>, so an empty text gives one agent row with the
  text \<^verbatim>\<open>...\<close>.
\<close>

theorem C3_empty_result_counterexample:
  "agentInserts (handleSendMessage (sampleClient []) ''hi'' None (sampleEnv False (Returns (Some ''''))))
   = [\<lparr>m_id = ''b1'', m_role = Model, m_text = ''...'', m_timestamp = 11, m_image = None,
       m_isStreaming = None, m_user_name = None, m_user_avatar = None,
       m_session_id = Some ''public-room-1''\<rparr>]"
  by (simp add: handleSendMessage_def newUserMessage_def botMessage_def orElse_def
      activeSession_def sample_defs)

text \<open>
  C3, as the code has it. For a send by a joined user whose write succeeded: when the
  generation call throws, the handler has inserted the user message, made the call and
  logged the error, no agent row is written and the local state is unchanged; when the
  call returns an empty or missing text, exactly one agent row is written, with the
  text \<^verbatim>\<open>...\<close>.
\<close>

theorem C3_failure_suppresses_reply:
  assumes "userProfile c = Some profile" and "\<not> e_insertError env"
    and "activeSession c = Some a"
  shows "(e_generation env = Throws \<longrightarrow>
            handleSendMessage c text img env
              = [Insert (newUserMessage c profile text img env),
                 GenerateResponse text (slice (- 5) (s_messages a)) (s_personality a) img,
                 ConsoleError ''Erro Gemini:'']
            \<and> agentInserts (handleSendMessage c text img env) = []
            \<and> fst (step c (Send text img env)) = c)
       \<and> (e_generation env = Returns None \<or> e_generation env = Returns (Some '''') \<longrightarrow>
            (\<exists>bot. agentInserts (handleSendMessage c text img env) = [bot]
                   \<and> m_text bot = ''...'' \<and> m_id bot = e_botId env))"
  using assms
  by (auto simp: handleSendMessage_def newUserMessage_def botMessage_def orElse_def)

text \<open>
  C3 on a send in an empty room: a throwing call and a call returning the empty text.
\<close>

theorem C3_failure_suppresses_reply_witness:
  "handleSendMessage (sampleClient []) ''hi'' None (sampleEnv False Throws)
     = [Insert (newUserMessage (sampleClient []) \<lparr>p_name = ''ana'', p_avatar = ''ana.png''\<rparr>
                  ''hi'' None (sampleEnv False Throws)),
        GenerateResponse ''hi'' [] ''Be brief.'' None,
        ConsoleError ''Erro Gemini:'']
   \<and> agentInserts (handleSendMessage (sampleClient []) ''hi'' None (sampleEnv False Throws)) = []
   \<and> (\<exists>bot. agentInserts (handleSendMessage (sampleClient []) ''hi'' None
                 (sampleEnv False (Returns (Some '''')))) = [bot] \<and> m_text bot = ''...'')"
proof -
  let ?c = "sampleClient []"
  let ?p = "\<lparr>p_name = ''ana'', p_avatar = ''ana.png''\<rparr>"
  let ?a = "sampleRoom ''public-room-1'' []"
  have p: "userProfile ?c = Some ?p" by (simp add: sample_defs)
  have a: "activeSession ?c = Some ?a" by (simp add: activeSession_def sample_defs)
  have e1: "\<not> e_insertError (sampleEnv False Throws)" by (simp add: sample_defs)
  have e2: "\<not> e_insertError (sampleEnv False (Returns (Some '''')))" by (simp add: sample_defs)
  have g1: "e_generation (sampleEnv False Throws) = Throws" by (simp add: sample_defs)
  have g2: "e_generation (sampleEnv False (Returns (Some ''''))) = Returns (Some '''')"
    by (simp add: sample_defs)
  have sl: "slice (- 5) (s_messages ?a) = []" by (simp add: slice_def sample_defs)
  have pe: "s_personality ?a = ''Be brief.''" by (simp add: sample_defs)
  from C3_failure_suppresses_reply [OF p e1 a, of "''hi''" None] g1 sl pe
  have "handleSendMessage ?c ''hi'' None (sampleEnv False Throws)
     = [Insert (newUserMessage ?c ?p ''hi'' None (sampleEnv False Throws)),
        GenerateResponse ''hi'' [] ''Be brief.'' None, ConsoleError ''Erro Gemini:'']
     \<and> agentInserts (handleSendMessage ?c ''hi'' None (sampleEnv False Throws)) = []"
    by metis
  moreover from C3_failure_suppresses_reply [OF p e2 a, of "''hi''" None] g2
  have "\<exists>bot. agentInserts (handleSendMessage ?c ''hi'' None (sampleEnv False (Returns (Some ''''))))
           = [bot] \<and> m_text bot = ''...''"
    by metis
  ultimately show ?thesis by blast
qed

section \<open>Order of the message list (C4)\<close>

text \<open>
  C4 as the specification states it does not hold: nothing sorts the list. Two
  deliveries in the order timestamp 2, timestamp 1 leave the list in that order.
\<close>

theorem C4_unsorted_counterexample:
  "messagesOf ''public-room-1'' (sessions (fst (run (mount None)
     [Deliver ''public-room-1'' (sampleMessage ''late'' 2),
      Deliver ''public-room-1'' (sampleMessage ''early'' 1)])))
   = Some [sampleMessage ''late'' 2, sampleMessage ''early'' 1]
   \<and> \<not> sorted (map m_timestamp [sampleMessage ''late'' 2, sampleMessage ''early'' 1])"
  by (simp add: client_defs sampleMessage_def)

text \<open>
  C4, as the code has it. The list of a room \<open>r\<close> of the catalogue is kept in arrival
  order: a history load stores the fetched rows as the query returned them, a delivery
  with a new id is appended at the end, a delivery with a known id changes nothing. So
  after a delivery the list is sorted ascending by timestamp exactly when it was sorted
  before and the delivered message is a duplicate or no stored timestamp exceeds its own.
\<close>

theorem C4_arrival_order:
  assumes "find (\<lambda>s. s_id s = r) prev = Some s"
  shows "messagesOf r (applyFetched r data prev) = Some data
       \<and> messagesOf r (onInsert r m prev)
           = Some (if m_id m \<in> m_id ` set (s_messages s) then s_messages s
                   else s_messages s @ [m])
       \<and> (sorted (map m_timestamp (s_messages (mergeMessage m s)))
            \<longleftrightarrow> sorted (map m_timestamp (s_messages s))
                \<and> (m_id m \<in> m_id ` set (s_messages s)
                   \<or> (\<forall>x \<in> set (s_messages s). m_timestamp x \<le> m_timestamp m)))"
proof (intro conjI)
  from assms show "messagesOf r (applyFetched r data prev) = Some data"
    by (simp add: messagesOf_applyFetched)
  from assms show "messagesOf r (onInsert r m prev)
      = Some (if m_id m \<in> m_id ` set (s_messages s) then s_messages s else s_messages s @ [m])"
    by (simp add: messagesOf_onInsert mergeMessage_fresh mergeMessage_known)
  show "sorted (map m_timestamp (s_messages (mergeMessage m s)))
            \<longleftrightarrow> sorted (map m_timestamp (s_messages s))
                \<and> (m_id m \<in> m_id ` set (s_messages s)
                   \<or> (\<forall>x \<in> set (s_messages s). m_timestamp x \<le> m_timestamp m))"
    by (rule sorted_mergeMessage)
qed

text \<open>
  C4 on the initial catalogue: a history of two rows and a first delivery.
\<close>

theorem C4_arrival_order_witness:
  "messagesOf ''public-room-1''
     (applyFetched ''public-room-1'' [sampleMessage ''a'' 1, sampleMessage ''b'' 2] INITIAL_SESSIONS)
   = Some [sampleMessage ''a'' 1, sampleMessage ''b'' 2]
   \<and> messagesOf ''public-room-1'' (onInsert ''public-room-1'' (sampleMessage ''c'' 3) INITIAL_SESSIONS)
   = Some [sampleMessage ''c'' 3]
   \<and> sorted (map m_timestamp (s_messages (mergeMessage (sampleMessage ''c'' 3) (INITIAL_SESSIONS ! 0))))"
proof -
  have room: "find (\<lambda>s. s_id s = ''public-room-1'') INITIAL_SESSIONS = Some (INITIAL_SESSIONS ! 0)"
    by (simp add: INITIAL_SESSIONS_def)
  have empty: "s_messages (INITIAL_SESSIONS ! 0) = []"
    by (simp add: INITIAL_SESSIONS_def)
  from C4_arrival_order [OF room, of "[sampleMessage ''a'' 1, sampleMessage ''b'' 2]"
      "sampleMessage ''c'' 3"]
  show ?thesis
    by (simp add: empty)
qed

section \<open>A history answer after a room switch (C5)\<close>

text \<open>
  C5 as the specification states it does not hold: the handler has no check of the
  active room. After the switch to \<^verbatim>\<open>creative-space\<close> the answer of the query issued
  for \<^verbatim>\<open>public-room-1\<close> is applied to the list of \<^verbatim>\<open>public-room-1\<close>.
\<close>

theorem C5_late_history_counterexample:
  "activeSessionId (fst (run (mount None)
     [Select ''creative-space'',
      FetchDone ''public-room-1'' \<lparr>f_error = False, f_data = Some [sampleMessage ''a'' 1]\<rparr>]))
   = ''creative-space''
   \<and> messagesOf ''public-room-1'' (sessions (fst (run (mount None) [Select ''creative-space''])))
   = Some []
   \<and> messagesOf ''public-room-1'' (sessions (fst (run (mount None)
     [Select ''creative-space'',
      FetchDone ''public-room-1'' \<lparr>f_error = False, f_data = Some [sampleMessage ''a'' 1]\<rparr>])))
   = Some [sampleMessage ''a'' 1]"
  by (simp add: client_defs)

text \<open>
  C5, as the code has it. A room switch leaves a history query that is out pending, and
  its successful answer, arriving after the switch, is applied with no check of the
  active room: it replaces the list of the room the query was issued for and leaves
  every other session as it was.
\<close>

theorem C5_late_history_applied:
  assumes "rid \<in> set (fetches c)" and "\<not> f_error res" and "f_data res = Some data"
  shows "rid \<in> set (fetches (fst (step c (Select other))))
       \<and> sessions (fst (step (fst (step c (Select other))) (FetchDone rid res)))
           = map (\<lambda>s. if s_id s = rid then s\<lparr>s_messages := data\<rparr> else s) (sessions c)"
  using assms
  by (simp add: effectRun_def effectCleanup_def fetchMessages_def applyFetched_def)

text \<open>
  C5 on the mounted client: switch to \<^verbatim>\<open>creative-space\<close>, then the answer for
  \<^verbatim>\<open>public-room-1\<close>.
\<close>

theorem C5_late_history_applied_witness:
  "''public-room-1'' \<in> set (fetches (mount None))
   \<and> ''public-room-1'' \<in> set (fetches (fst (step (mount None) (Select ''creative-space''))))
   \<and> map s_messages (sessions (fst (step (fst (step (mount None) (Select ''creative-space'')))
        (FetchDone ''public-room-1'' \<lparr>f_error = False, f_data = Some [sampleMessage ''a'' 1]\<rparr>))))
     = [[sampleMessage ''a'' 1], []]"
proof -
  let ?res = "\<lparr>f_error = False, f_data = Some [sampleMessage ''a'' 1]\<rparr>"
  have pend: "''public-room-1'' \<in> set (fetches (mount None))"
    by (simp add: mount_def effectRun_def INITIAL_SESSIONS_def)
  have ok: "\<not> f_error ?res" and dat: "f_data ?res = Some [sampleMessage ''a'' 1]"
    by simp_all
  have ss: "sessions (mount None) = INITIAL_SESSIONS"
    by (simp add: mount_def effectRun_def)
  note late = C5_late_history_applied [OF pend ok dat, of "''creative-space''"]
  have lists: "map s_messages
      (map (\<lambda>s. if s_id s = ''public-room-1'' then s\<lparr>s_messages := [sampleMessage ''a'' 1]\<rparr> else s)
         (sessions (mount None))) = [[sampleMessage ''a'' 1], []]"
    by (simp add: ss INITIAL_SESSIONS_def)
  show ?thesis
  proof (intro conjI)
    show "''public-room-1'' \<in> set (fetches (mount None))"
      by (rule pend)
    show "''public-room-1'' \<in> set (fetches (fst (step (mount None) (Select ''creative-space''))))"
      by (rule conjunct1 [OF late])
    show "map s_messages (sessions (fst (step (fst (step (mount None) (Select ''creative-space'')))
        (FetchDone ''public-room-1'' ?res)))) = [[sampleMessage ''a'' 1], []]"
      by (simp only: conjunct2 [OF late] lists)
  qed
qed

section \<open>A failed write (C6)\<close>

text \<open>
  C6. When the insert of the user message answers with an error, the send of a joined
  user stops there: the handler has handed the row to the remote log and logged the
  error it got back, it makes no generation call, writes no agent row, and the local
  state is unchanged.
\<close>

theorem C6_write_failure_stops_send:
  assumes "userProfile c = Some profile" and "e_insertError env"
  shows "handleSendMessage c text img env
           = [Insert (newUserMessage c profile text img env),
              ConsoleError ''Erro ao enviar para Supabase:'']
       \<and> filter isGenerate (handleSendMessage c text img env) = []
       \<and> agentInserts (handleSendMessage c text img env) = []
       \<and> fst (step c (Send text img env)) = c"
  using assms
  by (simp add: handleSendMessage_def newUserMessage_def)

text \<open>
  C6 on a send whose write fails although the generation call would have answered.
\<close>

theorem C6_write_failure_stops_send_witness:
  "handleSendMessage (sampleClient []) ''hi'' None (sampleEnv True (Returns (Some ''hello!'')))
     = [Insert (newUserMessage (sampleClient []) \<lparr>p_name = ''ana'', p_avatar = ''ana.png''\<rparr>
                  ''hi'' None (sampleEnv True (Returns (Some ''hello!'')))),
        ConsoleError ''Erro ao enviar para Supabase:'']
   \<and> filter isGenerate
        (handleSendMessage (sampleClient []) ''hi'' None (sampleEnv True (Returns (Some ''hello!''))))
      = []
   \<and> agentInserts
        (handleSendMessage (sampleClient []) ''hi'' None (sampleEnv True (Returns (Some ''hello!''))))
      = []"
proof -
  have p: "userProfile (sampleClient []) = Some \<lparr>p_name = ''ana'', p_avatar = ''ana.png''\<rparr>"
    by (simp add: sampleClient_def)
  have e: "e_insertError (sampleEnv True (Returns (Some ''hello!'')))"
    by (simp add: sampleEnv_def)
  from C6_write_failure_stops_send [OF p e, of "''hi''" None]
  show ?thesis by blast
qed

section \<open>Who requests a reply (C7)\<close>

text \<open>
  C7. The delivery handler does nothing to the outside, so it never calls the generation
  collaborator: a run of a client without a send makes no generation call, and any run
  makes at most one call per send.
\<close>

theorem C7_delivery_never_generates:
  "snd (step c (Deliver rid m)) = []
   \<and> ((\<forall>e \<in> set evs. \<not> isSend e) \<longrightarrow> filter isGenerate (snd (run c evs)) = [])
   \<and> length (filter isGenerate (snd (run c evs))) \<le> length (filter isSend evs)"
proof (intro conjI impI)
  show "snd (step c (Deliver rid m)) = []"
    by simp
  show "length (filter isGenerate (snd (run c evs))) \<le> length (filter isSend evs)"
    by (rule generate_run_le)
next
  assume "\<forall>e \<in> set evs. \<not> isSend e"
  then have "filter isSend evs = []"
    by (simp add: filter_empty_conv)
  with generate_run_le [of c evs] show "filter isGenerate (snd (run c evs)) = []"
    by simp
qed

text \<open>
  C7 on two clients in \<^verbatim>\<open>public-room-1\<close>: the one that receives \<open>m1\<close> from the feed
  makes no generation call, the one that sends makes one.
\<close>

theorem C7_delivery_never_generates_witness:
  "\<not> isSend (Deliver ''public-room-1'' (sampleMessage ''m1'' 10))
   \<and> filter isGenerate
        (snd (run (sampleClient []) [Deliver ''public-room-1'' (sampleMessage ''m1'' 10)])) = []
   \<and> filter isGenerate
        (snd (run (sampleClient []) [Send ''hi'' None (sampleEnv False (Returns (Some ''hello!'')))]))
      = [GenerateResponse ''hi'' [] ''Be brief.'' None]"
proof -
  let ?evs = "[Deliver ''public-room-1'' (sampleMessage ''m1'' 10)]"
  have quiet: "\<forall>e \<in> set ?evs. \<not> isSend e"
    by simp
  from C7_delivery_never_generates [of "sampleClient []" "''public-room-1''"
      "sampleMessage ''m1'' 10" ?evs] quiet
  have b: "filter isGenerate (snd (run (sampleClient []) ?evs)) = []"
    by blast
  have a: "filter isGenerate
        (snd (run (sampleClient []) [Send ''hi'' None (sampleEnv False (Returns (Some ''hello!'')))]))
      = [GenerateResponse ''hi'' [] ''Be brief.'' None]"
    by (simp add: handleSendMessage_def activeSession_def slice_def sample_defs)
  from a b show ?thesis by simp
qed

section \<open>Subscriptions (C8)\<close>

text \<open>
  C8. In every state a mounted client reaches, the subscribed channels are exactly one,
  that of the active room, so no room has more than one. Selecting another room removes
  the channel of the room left once and subscribes one channel for the room entered;
  selecting the active room does nothing.
\<close>

theorem C8_one_subscription:
  "channels (fst (run (mount saved) evs)) = [activeSessionId (fst (run (mount saved) evs))]
   \<and> count_list (channels (fst (run (mount saved) evs))) r \<le> 1
   \<and> (rid \<noteq> activeSessionId (fst (run (mount saved) evs)) \<longrightarrow>
        snd (step (fst (run (mount saved) evs)) (Select rid))
          = [RemoveChannel (activeSessionId (fst (run (mount saved) evs))),
             FetchMessages rid, Subscribe rid]
        \<and> channels (fst (step (fst (run (mount saved) evs)) (Select rid))) = [rid])
   \<and> (rid = activeSessionId (fst (run (mount saved) evs)) \<longrightarrow>
        step (fst (run (mount saved) evs)) (Select rid) = (fst (run (mount saved) evs), []))"
proof -
  let ?c = "fst (run (mount saved) evs)"
  have inv: "channels ?c = [activeSessionId ?c]"
    by (rule channels_run [OF channels_mount])
  then have "count_list (channels ?c) r \<le> 1"
    by simp
  moreover from inv have "rid \<noteq> activeSessionId ?c \<longrightarrow>
      snd (step ?c (Select rid)) = [RemoveChannel (activeSessionId ?c), FetchMessages rid, Subscribe rid]
      \<and> channels (fst (step ?c (Select rid))) = [rid]"
    by (simp add: effectRun_def effectCleanup_def)
  moreover have "rid = activeSessionId ?c \<longrightarrow> step ?c (Select rid) = (?c, [])"
    by simp
  ultimately show ?thesis
    using inv by blast
qed

text \<open>
  C8 on the mounted client after a switch to \<^verbatim>\<open>creative-space\<close>: switching back, and
  selecting the active room again.
\<close>

theorem C8_one_subscription_witness:
  "channels (fst (run (mount None) [Select ''creative-space''])) = [''creative-space'']
   \<and> ''public-room-1'' \<noteq> activeSessionId (fst (run (mount None) [Select ''creative-space'']))
   \<and> snd (step (fst (run (mount None) [Select ''creative-space''])) (Select ''public-room-1''))
       = [RemoveChannel ''creative-space'', FetchMessages ''public-room-1'',
          Subscribe ''public-room-1'']
   \<and> channels (fst (step (fst (run (mount None) [Select ''creative-space'']))
        (Select ''public-room-1''))) = [''public-room-1'']
   \<and> step (fst (run (mount None) [Select ''creative-space''])) (Select ''creative-space'')
       = (fst (run (mount None) [Select ''creative-space'']), [])"
proof -
  let ?c = "fst (run (mount None) [Select ''creative-space''])"
  have act: "activeSessionId ?c = ''creative-space''"
    by (simp add: mount_def effectRun_def effectCleanup_def INITIAL_SESSIONS_def)
  have ne: "''public-room-1'' \<noteq> activeSessionId ?c"
    by (simp only: act) simp
  from C8_one_subscription [of None "[Select ''creative-space'']" "''creative-space''"
      "''public-room-1''"] ne
  have one: "channels ?c = [activeSessionId ?c]
     \<and> snd (step ?c (Select ''public-room-1''))
         = [RemoveChannel (activeSessionId ?c), FetchMessages ''public-room-1'',
            Subscribe ''public-room-1'']
     \<and> channels (fst (step ?c (Select ''public-room-1''))) = [''public-room-1'']"
    by blast
  from C8_one_subscription [of None "[Select ''creative-space'']" "''creative-space''"
      "''creative-space''"] act [symmetric]
  have same: "step ?c (Select ''creative-space'') = (?c, [])"
    by blast
  from one same ne show ?thesis
    by (simp only: act) simp
qed

section \<open>Arguments of the generation call (C9)\<close>

text \<open>
  C9 as the specification states it does not hold: the context is a suffix of the
  stored list, and the stored list is in arrival order. After two deliveries with the
  timestamps 2 and 1, a send of the joined user calls the generation collaborator with
  the context \<open>[late, early]\<close>, the newer message first.
\<close>

theorem C9_context_order_counterexample:
  "filter isGenerate (snd (run (mount (Some sampleProfile))
     [Deliver ''public-room-1'' (sampleMessage ''late'' 2),
      Deliver ''public-room-1'' (sampleMessage ''early'' 1),
      Send ''hi'' None (sampleEnv False (Returns (Some ''hello!'')))]))
   = [GenerateResponse ''hi'' [sampleMessage ''late'' 2, sampleMessage ''early'' 1]
        (s_personality (INITIAL_SESSIONS ! 0)) None]
   \<and> \<not> sorted (map m_timestamp [sampleMessage ''late'' 2, sampleMessage ''early'' 1])"
  by (simp add: client_defs handleSendMessage_def activeSession_def slice_def sampleMessage_def
      sampleEnv_def)

text \<open>
  C9, as the code has it. A send by a joined user whose write succeeded makes exactly
  one generation call, with the text sent, the optional image, the personality of the
  active session \<open>a\<close> and the last 5 messages of the stored list of \<open>a\<close> (all of them
  when there are fewer), in the order of that list. The window is ascending by
  timestamp when the stored list is. The active session is the room the message is
  sent to whenever that room is in the catalogue.
\<close>

theorem C9_generation_arguments:
  assumes "userProfile c = Some profile" and "\<not> e_insertError env"
    and "activeSession c = Some a"
  shows "filter isGenerate (handleSendMessage c text img env)
           = [GenerateResponse text (slice (- 5) (s_messages a)) (s_personality a) img]
       \<and> slice (- 5) (s_messages a) = drop (length (s_messages a) - 5) (s_messages a)
       \<and> length (slice (- 5) (s_messages a)) = min 5 (length (s_messages a))
       \<and> (\<exists>older. s_messages a = older @ slice (- 5) (s_messages a))
       \<and> (sorted (map m_timestamp (s_messages a))
            \<longrightarrow> sorted (map m_timestamp (slice (- 5) (s_messages a))))
       \<and> (find (\<lambda>s. s_id s = activeSessionId c) (sessions c) \<noteq> None
            \<longrightarrow> find (\<lambda>s. s_id s = activeSessionId c) (sessions c) = Some a)"
proof (intro conjI impI)
  from assms show "filter isGenerate (handleSendMessage c text img env)
           = [GenerateResponse text (slice (- 5) (s_messages a)) (s_personality a) img]"
    by (simp add: handleSendMessage_def split: generation.splits)
  show "slice (- 5) (s_messages a) = drop (length (s_messages a) - 5) (s_messages a)"
    by (rule slice_last5)
  show "length (slice (- 5) (s_messages a)) = min 5 (length (s_messages a))"
    by (simp add: slice_last5)
  have "s_messages a = take (length (s_messages a) - 5) (s_messages a) @ slice (- 5) (s_messages a)"
    by (simp add: slice_last5)
  then show "\<exists>older. s_messages a = older @ slice (- 5) (s_messages a)" ..
next
  assume "sorted (map m_timestamp (s_messages a))"
  then show "sorted (map m_timestamp (slice (- 5) (s_messages a)))"
    by (rule sorted_slice_last5)
next
  assume "find (\<lambda>s. s_id s = activeSessionId c) (sessions c) \<noteq> None"
  with assms(3) show "find (\<lambda>s. s_id s = activeSessionId c) (sessions c) = Some a"
    by (auto simp: activeSession_def)
qed

text \<open>C9 on a room of seven messages in timestamp order: the context is the messages 3 to 7.\<close>

theorem C9_generation_arguments_witness:
  "filter isGenerate
     (handleSendMessage (sampleClient sevenMessages) ''hi'' (Some ''pic.png'')
        (sampleEnv False (Returns (Some ''hello!''))))
   = [GenerateResponse ''hi''
        [sampleMessage ''3'' 3, sampleMessage ''4'' 4, sampleMessage ''5'' 5,
         sampleMessage ''6'' 6, sampleMessage ''7'' 7]
        ''Be brief.'' (Some ''pic.png'')]
   \<and> sorted (map m_timestamp (slice (- 5) sevenMessages))
   \<and> find (\<lambda>s. s_id s = activeSessionId (sampleClient sevenMessages))
        (sessions (sampleClient sevenMessages))
      = Some (sampleRoom ''public-room-1'' sevenMessages)"
proof -
  let ?c = "sampleClient sevenMessages"
  let ?a = "sampleRoom ''public-room-1'' sevenMessages"
  have p: "userProfile ?c = Some \<lparr>p_name = ''ana'', p_avatar = ''ana.png''\<rparr>"
    by (simp add: sampleClient_def)
  have e: "\<not> e_insertError (sampleEnv False (Returns (Some ''hello!'')))"
    by (simp add: sampleEnv_def)
  have a: "activeSession ?c = Some ?a"
    by (simp add: activeSession_def sampleClient_def sampleRoom_def)
  have inc: "find (\<lambda>s. s_id s = activeSessionId ?c) (sessions ?c) \<noteq> None"
    by (simp add: sampleClient_def sampleRoom_def)
  have ms: "s_messages ?a = sevenMessages"
    by (simp add: sampleRoom_def)
  have asc: "sorted (map m_timestamp (s_messages ?a))"
    by (simp add: ms) (simp add: sevenMessages_def sampleMessage_def)
  have ctx: "drop (length (s_messages ?a) - 5) (s_messages ?a)
      = [sampleMessage ''3'' 3, sampleMessage ''4'' 4, sampleMessage ''5'' 5,
         sampleMessage ''6'' 6, sampleMessage ''7'' 7]"
    by (simp add: ms) (simp add: sevenMessages_def)
  have per: "s_personality ?a = ''Be brief.''"
    by (simp add: sampleRoom_def)
  note call = C9_generation_arguments [OF p e a, of "''hi''" "Some ''pic.png''"]
  from call ctx per
  have "filter isGenerate (handleSendMessage ?c ''hi'' (Some ''pic.png'')
          (sampleEnv False (Returns (Some ''hello!''))))
        = [GenerateResponse ''hi''
             [sampleMessage ''3'' 3, sampleMessage ''4'' 4, sampleMessage ''5'' 5,
              sampleMessage ''6'' 6, sampleMessage ''7'' 7]
             ''Be brief.'' (Some ''pic.png'')]"
    by metis
  moreover from call asc have "sorted (map m_timestamp (slice (- 5) (s_messages ?a)))"
    by blast
  then have "sorted (map m_timestamp (slice (- 5) sevenMessages))"
    by (simp only: ms)
  moreover from call inc
  have "find (\<lambda>s. s_id s = activeSessionId ?c) (sessions ?c) = Some ?a"
    by blast
  ultimately show ?thesis
    by blast
qed

section \<open>No optimistic append (C10)\<close>

text \<open>
  C10 as the specification states it does not hold: the echo of the live feed is not
  the only way the message sent becomes visible. The joined user sends in
  \<^verbatim>\<open>public-room-1\<close>, switches to \<^verbatim>\<open>creative-space\<close> and back, and the history answer
  for \<^verbatim>\<open>public-room-1\<close> carries the row: the list shows it, and no delivery has
  happened in the run.
\<close>

theorem C10_history_shows_sent_counterexample:
  "messagesOf ''public-room-1'' (sessions (fst (run (mount (Some sampleProfile))
     [FetchDone ''public-room-1'' \<lparr>f_error = False, f_data = Some []\<rparr>,
      Send ''hi'' None (sampleEnv False (Returns (Some ''hello!''))),
      Select ''creative-space'',
      Select ''public-room-1'',
      FetchDone ''public-room-1''
        \<lparr>f_error = False,
         f_data = Some [newUserMessage (mount (Some sampleProfile)) sampleProfile ''hi'' None
                          (sampleEnv False (Returns (Some ''hello!'')))]\<rparr>])))
   = Some [newUserMessage (mount (Some sampleProfile)) sampleProfile ''hi'' None
             (sampleEnv False (Returns (Some ''hello!'')))]
   \<and> messagesOf ''public-room-1'' (sessions (fst (run (mount (Some sampleProfile))
     [FetchDone ''public-room-1'' \<lparr>f_error = False, f_data = Some []\<rparr>,
      Send ''hi'' None (sampleEnv False (Returns (Some ''hello!''))),
      Select ''creative-space'',
      Select ''public-room-1''])))
   = Some []
   \<and> Insert (newUserMessage (mount (Some sampleProfile)) sampleProfile ''hi'' None
               (sampleEnv False (Returns (Some ''hello!''))))
     \<in> set (snd (run (mount (Some sampleProfile))
     [FetchDone ''public-room-1'' \<lparr>f_error = False, f_data = Some []\<rparr>,
      Send ''hi'' None (sampleEnv False (Returns (Some ''hello!'')))]))"
  by (simp add: client_defs handleSendMessage_def newUserMessage_def activeSession_def
      sampleProfile_def sampleEnv_def)

text \<open>
  C10, as the code has it. A send leaves the local state, and with it the message list
  of every room, as it was, whatever the collaborators answer: after the send the list
  of the active room \<open>a\<close> is the one before it. The message sent becomes visible
  afterwards in one of two ways: when the subscribed channel of the active room
  delivers it, it is appended to the list of \<open>a\<close>, its id being new to \<open>a\<close>; and when,
  in any state \<open>c'\<close> of the client, a history query for that room answers with rows
  that contain it, the list of the room becomes those rows.
\<close>

theorem C10_no_optimistic_append:
  assumes "userProfile c = Some profile"
    and "find (\<lambda>s. s_id s = activeSessionId c) (sessions c) = Some a"
    and "activeSessionId c \<in> set (channels c)"
    and "e_messageId env \<notin> m_id ` set (s_messages a)"
  shows "fst (step c (Send text img env)) = c
       \<and> messagesOf (activeSessionId c) (sessions (fst (step c (Send text img env))))
           = Some (s_messages a)
       \<and> messagesOf (activeSessionId c)
            (sessions (fst (step (fst (step c (Send text img env)))
               (Deliver (activeSessionId c) (newUserMessage c profile text img env)))))
           = Some (s_messages a @ [newUserMessage c profile text img env])
       \<and> (activeSessionId c \<in> set (fetches c')
            \<and> find (\<lambda>s. s_id s = activeSessionId c) (sessions c') \<noteq> None
            \<and> newUserMessage c profile text img env \<in> set data
          \<longrightarrow> messagesOf (activeSessionId c)
                (sessions (fst (step c'
                   (FetchDone (activeSessionId c) \<lparr>f_error = False, f_data = Some data\<rparr>))))
              = Some data)"
proof (intro conjI impI)
  let ?m = "newUserMessage c profile text img env"
  show "fst (step c (Send text img env)) = c"
    by simp
  from assms(2) show "messagesOf (activeSessionId c) (sessions (fst (step c (Send text img env))))
      = Some (s_messages a)"
    by (simp add: messagesOf_def)
  have "m_id ?m = e_messageId env"
    by (simp add: newUserMessage_def)
  with assms(4) have fresh: "m_id ?m \<notin> m_id ` set (s_messages a)"
    by simp
  with assms(2)
  have "messagesOf (activeSessionId c) (onInsert (activeSessionId c) ?m (sessions c))
        = Some (s_messages a @ [?m])"
    by (simp add: messagesOf_onInsert mergeMessage_fresh)
  with assms(3) show "messagesOf (activeSessionId c)
      (sessions (fst (step (fst (step c (Send text img env))) (Deliver (activeSessionId c) ?m))))
      = Some (s_messages a @ [?m])"
    by simp
next
  assume later: "activeSessionId c \<in> set (fetches c')
      \<and> find (\<lambda>s. s_id s = activeSessionId c) (sessions c') \<noteq> None
      \<and> newUserMessage c profile text img env \<in> set data"
  then obtain a' where "find (\<lambda>s. s_id s = activeSessionId c) (sessions c') = Some a'"
    by blast
  then have "messagesOf (activeSessionId c) (applyFetched (activeSessionId c) data (sessions c'))
      = Some data"
    by (simp add: messagesOf_applyFetched)
  with later show "messagesOf (activeSessionId c)
      (sessions (fst (step c'
         (FetchDone (activeSessionId c) \<lparr>f_error = False, f_data = Some data\<rparr>)))) = Some data"
    by (simp add: fetchMessages_def)
qed

text \<open>
  C10 on a send in a room that holds \<open>a\<close>: the list after the send, after the delivery
  of the echo, and, with the room left and entered again, after a history answer that
  carries the row.
\<close>

theorem C10_no_optimistic_append_witness:
  "messagesOf ''public-room-1''
     (sessions (fst (step (sampleClient [sampleMessage ''a'' 1])
        (Send ''hi'' None (sampleEnv False (Returns (Some ''hello!'')))))))
   = Some [sampleMessage ''a'' 1]
   \<and> messagesOf ''public-room-1''
        (sessions (fst (step (fst (step (sampleClient [sampleMessage ''a'' 1])
             (Send ''hi'' None (sampleEnv False (Returns (Some ''hello!''))))))
           (Deliver ''public-room-1''
              (newUserMessage (sampleClient [sampleMessage ''a'' 1]) sampleProfile ''hi'' None
                 (sampleEnv False (Returns (Some ''hello!''))))))))
      = Some [sampleMessage ''a'' 1,
              newUserMessage (sampleClient [sampleMessage ''a'' 1]) sampleProfile ''hi'' None
                 (sampleEnv False (Returns (Some ''hello!'')))]
   \<and> messagesOf ''public-room-1''
        (sessions (fst (step
           (fst (step (fst (step (sampleClient [sampleMessage ''a'' 1]) (Select ''creative-space'')))
              (Select ''public-room-1'')))
           (FetchDone ''public-room-1''
              \<lparr>f_error = False,
               f_data = Some [newUserMessage (sampleClient [sampleMessage ''a'' 1]) sampleProfile
                                ''hi'' None (sampleEnv False (Returns (Some ''hello!'')))]\<rparr>))))
      = Some [newUserMessage (sampleClient [sampleMessage ''a'' 1]) sampleProfile ''hi'' None
                (sampleEnv False (Returns (Some ''hello!'')))]"
proof -
  let ?c = "sampleClient [sampleMessage ''a'' 1]"
  let ?a = "sampleRoom ''public-room-1'' [sampleMessage ''a'' 1]"
  let ?env = "sampleEnv False (Returns (Some ''hello!''))"
  let ?m = "newUserMessage ?c sampleProfile ''hi'' None ?env"
  let ?c' = "fst (step (fst (step ?c (Select ''creative-space''))) (Select ''public-room-1''))"
  have p: "userProfile ?c = Some sampleProfile"
    by (simp add: sampleClient_def sampleProfile_def)
  have a: "find (\<lambda>s. s_id s = activeSessionId ?c) (sessions ?c) = Some ?a"
    by (simp add: sampleClient_def sampleRoom_def)
  have ch: "activeSessionId ?c \<in> set (channels ?c)"
    by (simp add: sampleClient_def)
  have fresh: "e_messageId ?env \<notin> m_id ` set (s_messages ?a)"
    by (simp add: sampleEnv_def sampleRoom_def sampleMessage_def)
  have act: "activeSessionId ?c = ''public-room-1''"
    by (simp add: sampleClient_def)
  have ms: "s_messages ?a = [sampleMessage ''a'' 1]"
    by (simp add: sampleRoom_def)
  have later: "activeSessionId ?c \<in> set (fetches ?c')
      \<and> find (\<lambda>s. s_id s = activeSessionId ?c) (sessions ?c') \<noteq> None
      \<and> ?m \<in> set [?m]"
    by (simp add: act) (simp add: sampleClient_def sampleRoom_def effectRun_def effectCleanup_def)
  note sent = C10_no_optimistic_append [OF p a ch fresh, of "''hi''" None ?c' "[?m]"]
  from sent later
  have "messagesOf (activeSessionId ?c) (sessions (fst (step ?c (Send ''hi'' None ?env))))
          = Some (s_messages ?a)
      \<and> messagesOf (activeSessionId ?c)
          (sessions (fst (step (fst (step ?c (Send ''hi'' None ?env)))
             (Deliver (activeSessionId ?c) ?m))))
          = Some (s_messages ?a @ [?m])
      \<and> messagesOf (activeSessionId ?c)
          (sessions (fst (step ?c'
             (FetchDone (activeSessionId ?c) \<lparr>f_error = False, f_data = Some [?m]\<rparr>))))
          = Some [?m]"
    by blast
  then show ?thesis
    by (simp only: act ms append_Cons append_Nil)
qed

end
